theory Spec2Isabelle
  imports Complex_Main
begin

section \<open>JavaScript numbers\<close>

text \<open>
  The matcher of \<^verbatim>\<open>onPredict\<close> computes with JavaScript numbers. A number is
  \<^verbatim>\<open>NaN\<close>, one of the two infinities, or a finite value, modelled by the rational
  it denotes. The operations of this section compute exactly on finite values. They carry
  the statements that do not depend on rounding: which rows the passes can return, what
  happens on special values, when the handlers throw. The value of a score does depend on
  rounding; for it the passes are given a second time further down, on doubles, with every
  operation rounded. The negative zero is left out: none of the operations used by
  \<^verbatim>\<open>onPredict\<close> can tell it from zero (every divisor is \<^verbatim>\<open>(x || 1)\<close> or the
  constant 10).
\<close>

datatype num = NaN | PInf | NInf | Fin rat

fun js_neg :: "num \<Rightarrow> num" where
  "js_neg NaN = NaN"
| "js_neg PInf = NInf"
| "js_neg NInf = PInf"
| "js_neg (Fin a) = Fin (- a)"

text \<open>\<^verbatim>\<open>x + y\<close> on numbers.\<close>

fun js_add :: "num \<Rightarrow> num \<Rightarrow> num" where
  "js_add NaN y = NaN"
| "js_add x NaN = NaN"
| "js_add PInf NInf = NaN"
| "js_add NInf PInf = NaN"
| "js_add PInf y = PInf"
| "js_add x PInf = PInf"
| "js_add NInf y = NInf"
| "js_add x NInf = NInf"
| "js_add (Fin a) (Fin b) = Fin (a + b)"

text \<open>\<^verbatim>\<open>x - y\<close> on numbers.\<close>

definition js_sub :: "num \<Rightarrow> num \<Rightarrow> num" where
  "js_sub x y = js_add x (js_neg y)"

text \<open>The sign of a number that is not \<^verbatim>\<open>NaN\<close>, with the zero counted positive.\<close>

fun negative :: "num \<Rightarrow> bool" where
  "negative NInf = True"
| "negative (Fin a) = (a < 0)"
| "negative x = False"

fun is_zero :: "num \<Rightarrow> bool" where
  "is_zero (Fin a) = (a = 0)"
| "is_zero x = False"

definition signed_inf :: "bool \<Rightarrow> num" where
  "signed_inf neg = (if neg then NInf else PInf)"

text \<open>\<^verbatim>\<open>x * y\<close> on numbers: an infinity times zero is \<^verbatim>\<open>NaN\<close>.\<close>

fun js_mul :: "num \<Rightarrow> num \<Rightarrow> num" where
  "js_mul NaN y = NaN"
| "js_mul x NaN = NaN"
| "js_mul (Fin a) (Fin b) = Fin (a * b)"
| "js_mul x y =
     (if is_zero x \<or> is_zero y then NaN else signed_inf (negative x \<noteq> negative y))"

text \<open>
  \<^verbatim>\<open>x / y\<close> on numbers. Division never raises in JavaScript: a finite value over
  zero is an infinity, zero over zero and infinity over infinity are \<^verbatim>\<open>NaN\<close>.
\<close>

fun js_div :: "num \<Rightarrow> num \<Rightarrow> num" where
  "js_div NaN y = NaN"
| "js_div x NaN = NaN"
| "js_div (Fin a) (Fin b) =
     (if b = 0 then (if a = 0 then NaN else signed_inf (a < 0)) else Fin (a / b))"
| "js_div (Fin a) y = Fin 0"
| "js_div x (Fin b) = signed_inf (negative x \<noteq> (b < 0))"
| "js_div x y = NaN"

text \<open>\<^verbatim>\<open>Math.abs(x)\<close>.\<close>

fun js_abs :: "num \<Rightarrow> num" where
  "js_abs NaN = NaN"
| "js_abs PInf = PInf"
| "js_abs NInf = PInf"
| "js_abs (Fin a) = Fin \<bar>a\<bar>"

text \<open>\<^verbatim>\<open>x < y\<close> on numbers: false as soon as one side is \<^verbatim>\<open>NaN\<close>.\<close>

fun js_lt :: "num \<Rightarrow> num \<Rightarrow> bool" where
  "js_lt NaN y = False"
| "js_lt x NaN = False"
| "js_lt (Fin a) (Fin b) = (a < b)"
| "js_lt x PInf = (x \<noteq> PInf)"
| "js_lt NInf y = (y \<noteq> NInf)"
| "js_lt x y = False"

text \<open>\<^verbatim>\<open>x > y\<close> is \<^verbatim>\<open>y < x\<close>.\<close>

definition js_gt :: "num \<Rightarrow> num \<Rightarrow> bool" where
  "js_gt x y = js_lt y x"

text \<open>\<^verbatim>\<open>x === y\<close> on numbers: \<^verbatim>\<open>NaN\<close> equals nothing, itself included.\<close>

definition num_eq :: "num \<Rightarrow> num \<Rightarrow> bool" where
  "num_eq x y = (x \<noteq> NaN \<and> x = y)"

text \<open>Truthiness of a number: zero and \<^verbatim>\<open>NaN\<close> are falsy.\<close>

fun num_truthy :: "num \<Rightarrow> bool" where
  "num_truthy NaN = False"
| "num_truthy (Fin a) = (a \<noteq> 0)"
| "num_truthy x = True"

text \<open>\<^verbatim>\<open>x || d\<close> on numbers.\<close>

definition num_or :: "num \<Rightarrow> num \<Rightarrow> num" where
  "num_or x d = (if num_truthy x then x else d)"

section \<open>Records, queries and the dataset\<close>

text \<open>
  \<^verbatim>\<open>DATA.rows\<close> is parsed from \<^verbatim>\<open>data.json\<close>, so the numbers of a row are
  finite. A categorical field holds a code, which \<^verbatim>\<open>codeToLabel\<close> documents as
  either a string (\<^verbatim>\<open>"Manufacturer 22"\<close>, \<^verbatim>\<open>"Fuel 5"\<close>) or a number
  (\<^verbatim>\<open>0\<close> for Doors). The fields the matcher does arithmetic on are numbers.
\<close>

datatype code = CStr string | CNum rat

record car =
  Manufacturer :: code
  Model :: code
  Production_Year :: rat
  Category :: code
  Leather_Interior :: bool
  Fuel_Type :: code
  Engine_Volume :: rat
  Mileage :: rat
  Gearbox_Type :: code
  Drive_Wheels :: code
  Doors :: code
  Wheel :: code
  Airbags :: rat
  predicted_price :: rat

text \<open>
  The object \<^verbatim>\<open>q\<close> of \<^verbatim>\<open>onPredict\<close>. Its categorical fields are strings read
  from the form or numbers produced by \<^verbatim>\<open>parseInt\<close>, which may be \<^verbatim>\<open>NaN\<close>.
  The year is stored under the key \<^verbatim>\<open>Production_Year\<close>.
\<close>

datatype qval = QStr string | QNum num

record query =
  q_Manufacturer :: qval
  q_Model :: qval
  q_Production_Year :: num
  q_Category :: qval
  q_Leather_Interior :: bool
  q_Fuel_Type :: qval
  q_Engine_Volume :: num
  q_Mileage :: num
  q_Gearbox_Type :: qval
  q_Drive_Wheels :: qval
  q_Doors :: qval
  q_Wheel :: qval
  q_Airbags :: num

text \<open>
  \<^verbatim>\<open>r.X === q.X\<close> between a field of a row and a field of the query: values of
  different types are never equal, numbers compare as numbers.
\<close>

fun strict_eq :: "code \<Rightarrow> qval \<Rightarrow> bool" where
  "strict_eq (CStr s) (QStr t) = (s = t)"
| "strict_eq (CNum a) (QNum y) = num_eq (Fin a) y"
| "strict_eq c v = False"

text \<open>\<^verbatim>\<open>r.X !== q.X\<close>.\<close>

definition strict_ne :: "code \<Rightarrow> qval \<Rightarrow> bool" where
  "strict_ne c v = (\<not> strict_eq c v)"

section \<open>The exact-match pass\<close>

text \<open>The callback of \<^verbatim>\<open>rows.find\<close>, conjunct by conjunct in the order of the source.\<close>

definition exact_match :: "query \<Rightarrow> car \<Rightarrow> bool" where
  "exact_match q r \<longleftrightarrow>
     strict_eq (Manufacturer r) (q_Manufacturer q) \<and>
     strict_eq (Model r) (q_Model q) \<and>
     num_eq (Fin (Production_Year r)) (q_Production_Year q) \<and>
     strict_eq (Category r) (q_Category q) \<and>
     Leather_Interior r = q_Leather_Interior q \<and>
     strict_eq (Fuel_Type r) (q_Fuel_Type q) \<and>
     strict_eq (Gearbox_Type r) (q_Gearbox_Type q) \<and>
     strict_eq (Drive_Wheels r) (q_Drive_Wheels q) \<and>
     strict_eq (Doors r) (q_Doors q) \<and>
     strict_eq (Wheel r) (q_Wheel q) \<and>
     num_eq (Fin (Airbags r)) (q_Airbags q) \<and>
     js_lt (js_abs (js_sub (Fin (Engine_Volume r)) (q_Engine_Volume q))) (Fin (1 / 1000)) \<and>
     num_eq (Fin (Mileage r)) (q_Mileage q)"

text \<open>
  \<^verbatim>\<open>rows.find(...)\<close> returns a reference to an element of the array. A reference is
  modelled by the position of the element together with its value; \<open>None\<close> is
  \<^verbatim>\<open>undefined\<close>.
\<close>

type_synonym row_ref = "nat \<times> car"

definition find_exact :: "query \<Rightarrow> car list \<Rightarrow> row_ref option" where
  "find_exact q rows = List.find (\<lambda>ir. exact_match q (snd ir)) (enumerate 0 rows)"

section \<open>The nearest-match pass\<close>

definition engineVolWeight :: num where "engineVolWeight = Fin 2"
definition mileageWeight :: num where "mileageWeight = Fin 1"
definition yearWeight :: num where "yearWeight = Fin 3"
definition airbagsWeight :: num where "airbagsWeight = Fin 1"

definition engineDiff :: "query \<Rightarrow> car \<Rightarrow> num" where
  "engineDiff q r =
     js_div (js_abs (js_sub (Fin (Engine_Volume r)) (q_Engine_Volume q)))
            (num_or (q_Engine_Volume q) (Fin 1))"

definition mileageDiff :: "query \<Rightarrow> car \<Rightarrow> num" where
  "mileageDiff q r =
     js_div (js_abs (js_sub (Fin (Mileage r)) (q_Mileage q))) (num_or (q_Mileage q) (Fin 1))"

definition yearDiff :: "query \<Rightarrow> car \<Rightarrow> num" where
  "yearDiff q r =
     js_div (js_abs (js_sub (Fin (Production_Year r)) (q_Production_Year q))) (Fin 10)"

definition airbagsDiff :: "query \<Rightarrow> car \<Rightarrow> num" where
  "airbagsDiff q r =
     js_div (js_abs (js_sub (Fin (Airbags r)) (q_Airbags q))) (num_or (q_Airbags q) (Fin 1))"

text \<open>
  The body of the \<^verbatim>\<open>for\<close> loop up to the comparison: \<^verbatim>\<open>score\<close> starts at 0, each
  \<^verbatim>\<open>if (...) score += w\<close> is one \<open>let\<close>, and the numeric terms are added as one
  parenthesised sum, as the source's \<^verbatim>\<open>score += a + b + c + d\<close> does.
\<close>

definition score :: "query \<Rightarrow> car \<Rightarrow> num" where
  "score q r =
    (let s = Fin 0;
         s = (if strict_ne (Manufacturer r) (q_Manufacturer q) then js_add s (Fin 5) else s);
         s = (if strict_ne (Model r) (q_Model q) then js_add s (Fin 5) else s);
         s = (if strict_ne (Category r) (q_Category q) then js_add s (Fin 3) else s);
         s = (if strict_ne (Fuel_Type r) (q_Fuel_Type q) then js_add s (Fin 3) else s);
         s = (if strict_ne (Gearbox_Type r) (q_Gearbox_Type q) then js_add s (Fin 2) else s);
         s = (if strict_ne (Drive_Wheels r) (q_Drive_Wheels q) then js_add s (Fin 2) else s);
         s = (if Leather_Interior r \<noteq> q_Leather_Interior q then js_add s (Fin 1) else s)
     in js_add s
          (js_add
            (js_add
              (js_add (js_mul (engineDiff q r) engineVolWeight)
                      (js_mul (mileageDiff q r) mileageWeight))
              (js_mul (yearDiff q r) yearWeight))
            (js_mul (airbagsDiff q r) airbagsWeight)))"

text \<open>
  The \<^verbatim>\<open>for (const r of rows)\<close> loop, with the pair \<^verbatim>\<open>(best, bestScore)\<close> as its
  state: a row replaces the best one only when its score is strictly smaller.
\<close>

fun nearest_loop :: "query \<Rightarrow> row_ref list \<Rightarrow> row_ref option \<times> num \<Rightarrow> row_ref option \<times> num" where
  "nearest_loop q [] (best, bestScore) = (best, bestScore)"
| "nearest_loop q (ir # rest) (best, bestScore) =
     (if js_lt (score q (snd ir)) bestScore
      then nearest_loop q rest (Some ir, score q (snd ir))
      else nearest_loop q rest (best, bestScore))"

text \<open>The loop started as the source does: \<^verbatim>\<open>best = null\<close>, \<^verbatim>\<open>bestScore = Infinity\<close>.\<close>

definition nearest :: "query \<Rightarrow> car list \<Rightarrow> row_ref option \<times> num" where
  "nearest q rows = nearest_loop q (enumerate 0 rows) (None, PInf)"

section \<open>The two variants of the matcher\<close>

text \<open>
  The labelled variant (the file with \<^verbatim>\<open>label_mappings.json\<close>) declares
  \<^verbatim>\<open>let bestScore = 0\<close> before the exact-match pass, so after the matching code both
  \<^verbatim>\<open>match\<close> and \<^verbatim>\<open>bestScore\<close> are in scope.
\<close>

definition findMatch_labeled :: "query \<Rightarrow> car list \<Rightarrow> row_ref option \<times> num" where
  "findMatch_labeled q rows =
     (case find_exact q rows of
        Some m \<Rightarrow> (Some m, Fin 0)
      | None \<Rightarrow> nearest q rows)"

text \<open>
  \<^verbatim>\<open>app.js\<close> declares \<^verbatim>\<open>let bestScore = Infinity\<close> inside the block of
  \<^verbatim>\<open>if (!match)\<close>: when the block ends only \<^verbatim>\<open>match\<close> is left.
\<close>

definition findMatch_simple :: "query \<Rightarrow> car list \<Rightarrow> row_ref option" where
  "findMatch_simple q rows =
     (case find_exact q rows of
        Some m \<Rightarrow> Some m
      | None \<Rightarrow> fst (nearest q rows))"

section \<open>Reading the form\<close>

text \<open>
  \<^verbatim>\<open>parseInt(s, 10)\<close> and \<^verbatim>\<open>parseFloat(s)\<close> on the value of a form control.
  Both skip leading white space (the ASCII white space here), read an optional sign and
  the longest prefix that is a numeral, ignore what follows, and return \<^verbatim>\<open>NaN\<close>
  when there is no such prefix. The value of the numeral is taken exactly: a numeral too
  long for a double is not rounded and does not overflow; and of the white space only the
  ASCII characters are skipped.
\<close>

definition is_ws :: "char \<Rightarrow> bool" where
  "is_ws c \<longleftrightarrow> c \<in> set [CHR 0x09, CHR 0x0A, CHR 0x0B, CHR 0x0C, CHR 0x0D, CHR 0x20]"

definition is_digit :: "char \<Rightarrow> bool" where
  "is_digit c \<longleftrightarrow> c \<in> set ''0123456789''"

definition digit_val :: "char \<Rightarrow> nat" where
  "digit_val c = (of_char c :: nat) - 48"

definition digits_val :: "string \<Rightarrow> nat" where
  "digits_val ds = foldl (\<lambda>n c. 10 * n + digit_val c) 0 ds"

definition has_sign :: "string \<Rightarrow> bool" where
  "has_sign S \<longleftrightarrow> (case S of [] \<Rightarrow> False | c # _ \<Rightarrow> c = CHR ''+'' \<or> c = CHR ''-'')"

definition is_minus :: "string \<Rightarrow> bool" where
  "is_minus S \<longleftrightarrow> (case S of [] \<Rightarrow> False | c # _ \<Rightarrow> c = CHR ''-'')"

definition drop_sign :: "string \<Rightarrow> string" where
  "drop_sign S = (if has_sign S then tl S else S)"

definition parseInt :: "string \<Rightarrow> num" where
  "parseInt s =
     (let S = dropWhile is_ws s;
          Z = takeWhile is_digit (drop_sign S)
      in if Z = [] then NaN
         else Fin ((if is_minus S then - 1 else 1) * of_nat (digits_val Z)))"

text \<open>The exponent part \<^verbatim>\<open>e\<close>, sign, digits; it counts only when a digit follows.\<close>

definition exponent :: "string \<Rightarrow> int" where
  "exponent t =
     (case t of
        [] \<Rightarrow> 0
      | c # u \<Rightarrow>
          if c = CHR ''e'' \<or> c = CHR ''E''
          then (let ds = takeWhile is_digit (drop_sign u)
                in if ds = [] then 0
                   else (if is_minus u then - 1 else 1) * int (digits_val ds))
          else 0)"

definition scale10 :: "rat \<Rightarrow> int \<Rightarrow> rat" where
  "scale10 x e = (if 0 \<le> e then x * 10 ^ nat e else x / 10 ^ nat (- e))"

definition parseFloat :: "string \<Rightarrow> num" where
  "parseFloat s =
     (let S = dropWhile is_ws s;
          U = drop_sign S
      in if take 8 U = ''Infinity'' then signed_inf (is_minus S)
         else
           (let ip = takeWhile is_digit U;
                r1 = dropWhile is_digit U;
                dot = (case r1 of [] \<Rightarrow> False | c # _ \<Rightarrow> c = CHR ''.'');
                fp = (if dot then takeWhile is_digit (tl r1) else []);
                r2 = (if dot then dropWhile is_digit (tl r1) else r1)
            in if ip = [] \<and> fp = [] then NaN
               else Fin ((if is_minus S then - 1 else 1) *
                         scale10 (of_nat (digits_val ip) + of_nat (digits_val fp) / 10 ^ length fp)
                                 (exponent r2))))"

text \<open>
  The form controls \<^verbatim>\<open>onPredict\<close> reads: the \<^verbatim>\<open>value\<close> of each control is a
  string, the check box gives a boolean.
\<close>

record form =
  f_Manufacturer :: string
  f_Model :: string
  f_Production_Year :: string
  f_Category :: string
  f_Leather_Interior :: bool
  f_Fuel_Type :: string
  f_Engine_Volume :: string
  f_Mileage :: string
  f_Gearbox_Type :: string
  f_Drive_Wheels :: string
  f_Doors :: string
  f_Wheel :: string
  f_Airbags :: string

text \<open>
  The object literal \<^verbatim>\<open>const q = {...}\<close>, the same in both files: only Engine Volume
  and Mileage carry \<^verbatim>\<open>|| 0\<close>.
\<close>

definition buildQuery :: "form \<Rightarrow> query" where
  "buildQuery f =
     \<lparr> q_Manufacturer = QStr (f_Manufacturer f),
       q_Model = QStr (f_Model f),
       q_Production_Year = parseInt (f_Production_Year f),
       q_Category = QStr (f_Category f),
       q_Leather_Interior = f_Leather_Interior f,
       q_Fuel_Type = QStr (f_Fuel_Type f),
       q_Engine_Volume = num_or (parseFloat (f_Engine_Volume f)) (Fin 0),
       q_Mileage = num_or (parseInt (f_Mileage f)) (Fin 0),
       q_Gearbox_Type = QStr (f_Gearbox_Type f),
       q_Drive_Wheels = QStr (f_Drive_Wheels f),
       q_Doors = QNum (parseInt (f_Doors f)),
       q_Wheel = QStr (f_Wheel f),
       q_Airbags = parseInt (f_Airbags f) \<rparr>"

text \<open>Truthiness of a field of the query: the empty string is falsy.\<close>

fun qval_truthy :: "qval \<Rightarrow> bool" where
  "qval_truthy (QStr s) = (s \<noteq> [])"
| "qval_truthy (QNum x) = num_truthy x"

text \<open>
  The guard \<^verbatim>\<open>!q.Manufacturer || !q.Model || !q.Production_Year\<close>, negated: the
  query goes on to the matcher.
\<close>

definition required_present :: "query \<Rightarrow> bool" where
  "required_present q \<longleftrightarrow>
     \<not> (\<not> qval_truthy (q_Manufacturer q) \<or> \<not> qval_truthy (q_Model q) \<or>
        \<not> num_truthy (q_Production_Year q))"

section \<open>The page and the two event handlers\<close>

text \<open>
  What \<^verbatim>\<open>onPredict\<close> reads and writes: the loaded rows, the form, the elements
  \<^verbatim>\<open>price\<close>, \<^verbatim>\<open>explain\<close> and \<^verbatim>\<open>.details\<close>, and the toasts shown so far.
  The price element holds the price before formatting; the details hold the matched row.
  The handler is attached by \<^verbatim>\<open>populateControls\<close>, which runs once the data is
  loaded, so \<^verbatim>\<open>DATA.rows\<close> is there when it runs; the elements it looks up are
  taken to exist in the page.
\<close>

datatype price_el = PriceInitial | PriceOf rat | PriceNoMatchFound

datatype explain_el = ExplainInitial | ExplainNearest | ExplainExact | ExplainAdjust

datatype toast = ToastFillRequired | ToastGenerated

record page =
  DATA_rows :: "car list"
  inputs :: form
  price :: price_el
  explain :: explain_el
  details :: "row_ref option"
  toasts :: "toast list"

datatype error = ReferenceError

text \<open>
  The conditional \<^verbatim>\<open>bestScore > 0 ? ... : ...\<close> that chooses the text of
  \<^verbatim>\<open>explain\<close>. Its argument is the binding of \<^verbatim>\<open>bestScore\<close> visible at that
  line: reading a name with no binding throws a \<^verbatim>\<open>ReferenceError\<close>.
\<close>

definition explain_of :: "num option \<Rightarrow> error + explain_el" where
  "explain_of bestScore =
     (case bestScore of
        None \<Rightarrow> Inl ReferenceError
      | Some s \<Rightarrow> Inr (if js_gt s (Fin 0) then ExplainNearest else ExplainExact))"

text \<open>
  The branch \<^verbatim>\<open>if (match) {...} else {...}\<close>, statement by statement: the price is
  written first, then the explanation is computed, then details and toast follow. An
  error leaves the page as it was when it was thrown.
\<close>

definition render :: "row_ref option \<Rightarrow> num option \<Rightarrow> page \<Rightarrow> error option \<times> page" where
  "render match bestScore p =
     (case match of
        None \<Rightarrow> (None, p\<lparr>price := PriceNoMatchFound, explain := ExplainAdjust\<rparr>)
      | Some m \<Rightarrow>
          (let p1 = p\<lparr>price := PriceOf (predicted_price (snd m))\<rparr>
           in case explain_of bestScore of
                Inl e \<Rightarrow> (Some e, p1)
              | Inr t \<Rightarrow>
                  (None, p1\<lparr>explain := t, details := Some m,
                             toasts := toasts p1 @ [ToastGenerated]\<rparr>)))"

text \<open>
  \<^verbatim>\<open>onPredict\<close> of the labelled variant: \<^verbatim>\<open>bestScore\<close> is declared in the
  function body, so the rendering sees it.
\<close>

definition onPredict_labeled :: "page \<Rightarrow> error option \<times> page" where
  "onPredict_labeled p =
     (let q = buildQuery (inputs p)
      in if \<not> required_present q then (None, p\<lparr>toasts := toasts p @ [ToastFillRequired]\<rparr>)
         else (case findMatch_labeled q (DATA_rows p) of
                 (match, bestScore) \<Rightarrow> render match (Some bestScore) p))"

text \<open>
  \<^verbatim>\<open>onPredict\<close> of \<^verbatim>\<open>app.js\<close>: the only declaration of \<^verbatim>\<open>bestScore\<close> is
  local to the block of \<^verbatim>\<open>if (!match)\<close>, and no global of that name exists, so the
  rendering sees no binding.
\<close>

definition onPredict_simple :: "page \<Rightarrow> error option \<times> page" where
  "onPredict_simple p =
     (let q = buildQuery (inputs p)
      in if \<not> required_present q then (None, p\<lparr>toasts := toasts p @ [ToastFillRequired]\<rparr>)
         else render (findMatch_simple q (DATA_rows p)) None p)"

section \<open>The spec's side of the comparison\<close>

text \<open>
  \<open>queryFrom R\<close> is the spec's name for the query that carries the field values of the
  record \<open>R\<close>: each code and each number is copied as it is, the year under the query's
  key \<^verbatim>\<open>Production_Year\<close>, and the price is left out.
\<close>

fun of_code :: "code \<Rightarrow> qval" where
  "of_code (CStr s) = QStr s"
| "of_code (CNum a) = QNum (Fin a)"

definition queryFrom :: "car \<Rightarrow> query" where
  "queryFrom r =
     \<lparr> q_Manufacturer = of_code (Manufacturer r),
       q_Model = of_code (Model r),
       q_Production_Year = Fin (Production_Year r),
       q_Category = of_code (Category r),
       q_Leather_Interior = Leather_Interior r,
       q_Fuel_Type = of_code (Fuel_Type r),
       q_Engine_Volume = Fin (Engine_Volume r),
       q_Mileage = Fin (Mileage r),
       q_Gearbox_Type = of_code (Gearbox_Type r),
       q_Drive_Wheels = of_code (Drive_Wheels r),
       q_Doors = of_code (Doors r),
       q_Wheel = of_code (Wheel r),
       q_Airbags = Fin (Airbags r) \<rparr>"

text \<open>
  The sum as the spec words it, in exact arithmetic: a penalty per categorical field that
  differs, and per numeric field the absolute difference over the query's value "if
  nonzero else 1" (over 10 for the year), times the weight; all of it summed as rational
  numbers.
\<close>

definition penalty :: "bool \<Rightarrow> rat \<Rightarrow> num" where
  "penalty differ w = (if differ then Fin w else Fin 0)"

definition nonzero_else_1 :: "num \<Rightarrow> num" where
  "nonzero_else_1 x = (if x = Fin 0 then Fin 1 else x)"

definition sum_num :: "num list \<Rightarrow> num" where
  "sum_num ts = foldr js_add ts (Fin 0)"

definition spec_score :: "query \<Rightarrow> car \<Rightarrow> num" where
  "spec_score q r = sum_num
     [ penalty (\<not> strict_eq (Manufacturer r) (q_Manufacturer q)) 5,
       penalty (\<not> strict_eq (Model r) (q_Model q)) 5,
       penalty (\<not> strict_eq (Category r) (q_Category q)) 3,
       penalty (\<not> strict_eq (Fuel_Type r) (q_Fuel_Type q)) 3,
       penalty (\<not> strict_eq (Gearbox_Type r) (q_Gearbox_Type q)) 2,
       penalty (\<not> strict_eq (Drive_Wheels r) (q_Drive_Wheels q)) 2,
       penalty (Leather_Interior r \<noteq> q_Leather_Interior q) 1,
       js_mul (js_div (js_abs (js_sub (Fin (Engine_Volume r)) (q_Engine_Volume q)))
                      (nonzero_else_1 (q_Engine_Volume q))) (Fin 2),
       js_mul (js_div (js_abs (js_sub (Fin (Mileage r)) (q_Mileage q)))
                      (nonzero_else_1 (q_Mileage q))) (Fin 1),
       js_mul (js_div (js_abs (js_sub (Fin (Production_Year r)) (q_Production_Year q)))
                      (Fin 10)) (Fin 3),
       js_mul (js_div (js_abs (js_sub (Fin (Airbags r)) (q_Airbags q)))
                      (nonzero_else_1 (q_Airbags q))) (Fin 1) ]"

section \<open>Concrete inputs\<close>

text \<open>The row and the query of the spec's scenario.\<close>

definition scenario_row :: car where
  "scenario_row =
     \<lparr> Manufacturer = CStr ''A'', Model = CStr ''X'', Production_Year = 2015,
       Category = CStr ''C1'', Leather_Interior = True, Fuel_Type = CStr ''F1'',
       Engine_Volume = 2, Mileage = 50000, Gearbox_Type = CStr ''G1'',
       Drive_Wheels = CStr ''D1'', Doors = CStr ''4'', Wheel = CStr ''L'', Airbags = 6,
       predicted_price = 12000 \<rparr>"

definition scenario_query :: query where
  "scenario_query = (queryFrom scenario_row)\<lparr>q_Production_Year := Fin 2016\<rparr>"

text \<open>The same query as the user would enter it, and the page that holds it.\<close>

definition scenario_form :: form where
  "scenario_form =
     \<lparr> f_Manufacturer = ''A'', f_Model = ''X'', f_Production_Year = ''2016'',
       f_Category = ''C1'', f_Leather_Interior = True, f_Fuel_Type = ''F1'',
       f_Engine_Volume = ''2.0'', f_Mileage = ''50000'', f_Gearbox_Type = ''G1'',
       f_Drive_Wheels = ''D1'', f_Doors = ''4'', f_Wheel = ''L'', f_Airbags = ''6'' \<rparr>"

definition fresh_page :: "car list \<Rightarrow> form \<Rightarrow> page" where
  "fresh_page rows f =
     \<lparr> DATA_rows = rows, inputs = f, price = PriceInitial, explain = ExplainInitial,
       details = None, toasts = [] \<rparr>"

text \<open>A form with the three required fields and nothing else.\<close>

definition required_only_form :: form where
  "required_only_form =
     \<lparr> f_Manufacturer = ''A'', f_Model = ''X'', f_Production_Year = ''2015'',
       f_Category = [], f_Leather_Interior = False, f_Fuel_Type = [],
       f_Engine_Volume = [], f_Mileage = [], f_Gearbox_Type = [],
       f_Drive_Wheels = [], f_Doors = [], f_Wheel = [], f_Airbags = [] \<rparr>"

text \<open>Three rows of which the last two are equally far from the scenario's query.\<close>

definition tied_rows :: "car list" where
  "tied_rows =
     [ scenario_row\<lparr>Production_Year := 2014, predicted_price := 11000\<rparr>,
       scenario_row\<lparr>Production_Year := 2015, predicted_price := 12000\<rparr>,
       scenario_row\<lparr>Production_Year := 2017, predicted_price := 13000\<rparr> ]"

text \<open>Two rows that both match the query made from the second one exactly.\<close>

definition duplicate_rows :: "car list" where
  "duplicate_rows =
     [ scenario_row\<lparr>Engine_Volume := 2 + 1 / 2000, predicted_price := 12500\<rparr>,
       scenario_row ]"

text \<open>The scenario's query with the three query-normalised values set to zero.\<close>

definition zero_query :: query where
  "zero_query =
     (queryFrom scenario_row)\<lparr>q_Engine_Volume := Fin 0, q_Mileage := Fin 0, q_Airbags := Fin 0\<rparr>"

text \<open>
  A row whose Doors code is a number, as \<^verbatim>\<open>parseInt\<close> produces it, and the form that
  describes exactly this row.
\<close>

definition numeric_doors_row :: car where
  "numeric_doors_row = scenario_row\<lparr>Doors := CNum 4\<rparr>"

definition exact_form :: form where
  "exact_form = scenario_form\<lparr>f_Production_Year := ''2015''\<rparr>"

section \<open>Rounding to doubles\<close>

text \<open>
  A JavaScript number is an IEEE 754 binary64 value and every arithmetic operation
  returns the exact result rounded to the nearest such value, ties to the even
  significand; a result of magnitude \<open>2^1024 - 2^970\<close> or more becomes an infinity, and
  below \<open>2^-1022\<close> the spacing of the values stays \<open>2^-1074\<close>. \<open>fl x\<close> is the
  double nearest to the rational \<open>x\<close>. The operations above compute exactly; the
  operations \<open>d_add\<close>, \<open>d_sub\<close>, \<open>d_mul\<close> and \<open>d_div\<close> round their results, and are
  what the program computes on doubles. Absolute value, comparison and negation are
  exact in either reading.
\<close>

definition round_even :: "rat \<Rightarrow> int" where
  "round_even x =
     (let n = \<lfloor>x\<rfloor>; d = x - of_int n
      in if d < 1 / 2 then n
         else if 1 / 2 < d then n + 1
         else if even n then n else n + 1)"

text \<open>\<open>log2n n\<close> is the position of the leading bit of \<open>n\<close>.\<close>

fun log2n :: "nat \<Rightarrow> nat" where
  "log2n n = (if n < 2 then 0 else Suc (log2n (n div 2)))"

declare log2n.simps [simp del]

text \<open>The exponent \<open>e\<close> with \<open>2^e \<le> x < 2^(e+1)\<close>, for positive \<open>x\<close>.\<close>

definition ilog2 :: "rat \<Rightarrow> int" where
  "ilog2 x =
     (if 1 \<le> x then int (log2n (nat \<lfloor>x\<rfloor>))
      else (let n = nat \<lceil>1 / x\<rceil> - 1
            in - int (if n = 0 then 0 else Suc (log2n n))))"

definition pow2 :: "int \<Rightarrow> rat" where
  "pow2 k = (if 0 \<le> k then 2 ^ nat k else 1 / 2 ^ nat (- k))"

definition fl :: "rat \<Rightarrow> num" where
  "fl x =
     (if x = 0 then Fin 0
      else if 2 ^ 1024 - 2 ^ 970 \<le> \<bar>x\<bar> then signed_inf (x < 0)
      else (let e = (if \<bar>x\<bar> < 1 / 2 ^ 1022 then - 1022 else ilog2 \<bar>x\<bar>);
                u = pow2 (e - 52)
            in Fin (of_int (round_even (x / u)) * u)))"

fun rnd :: "num \<Rightarrow> num" where
  "rnd (Fin a) = fl a"
| "rnd x = x"

definition d_add :: "num \<Rightarrow> num \<Rightarrow> num" where
  "d_add x y = rnd (js_add x y)"

definition d_sub :: "num \<Rightarrow> num \<Rightarrow> num" where
  "d_sub x y = rnd (js_sub x y)"

definition d_mul :: "num \<Rightarrow> num \<Rightarrow> num" where
  "d_mul x y = rnd (js_mul x y)"

definition d_div :: "num \<Rightarrow> num \<Rightarrow> num" where
  "d_div x y = rnd (js_div x y)"

section \<open>The two passes on doubles\<close>

text \<open>
  The same code as above with every operation rounded. A number of a row is the double
  that \<^verbatim>\<open>JSON.parse\<close> makes of the literal in \<^verbatim>\<open>data.json\<close>, and the literal
  \<^verbatim>\<open>0.001\<close> of the source is the double nearest to a thousandth.
\<close>

definition row_num :: "rat \<Rightarrow> num" where
  "row_num x = fl x"

fun strict_eq64 :: "code \<Rightarrow> qval \<Rightarrow> bool" where
  "strict_eq64 (CStr s) (QStr t) = (s = t)"
| "strict_eq64 (CNum a) (QNum y) = num_eq (row_num a) y"
| "strict_eq64 c v = False"

definition exact_match64 :: "query \<Rightarrow> car \<Rightarrow> bool" where
  "exact_match64 q r \<longleftrightarrow>
     strict_eq64 (Manufacturer r) (q_Manufacturer q) \<and>
     strict_eq64 (Model r) (q_Model q) \<and>
     num_eq (row_num (Production_Year r)) (q_Production_Year q) \<and>
     strict_eq64 (Category r) (q_Category q) \<and>
     Leather_Interior r = q_Leather_Interior q \<and>
     strict_eq64 (Fuel_Type r) (q_Fuel_Type q) \<and>
     strict_eq64 (Gearbox_Type r) (q_Gearbox_Type q) \<and>
     strict_eq64 (Drive_Wheels r) (q_Drive_Wheels q) \<and>
     strict_eq64 (Doors r) (q_Doors q) \<and>
     strict_eq64 (Wheel r) (q_Wheel q) \<and>
     num_eq (row_num (Airbags r)) (q_Airbags q) \<and>
     js_lt (js_abs (d_sub (row_num (Engine_Volume r)) (q_Engine_Volume q))) (fl (1 / 1000)) \<and>
     num_eq (row_num (Mileage r)) (q_Mileage q)"

definition find_exact64 :: "query \<Rightarrow> car list \<Rightarrow> row_ref option" where
  "find_exact64 q rows = List.find (\<lambda>ir. exact_match64 q (snd ir)) (enumerate 0 rows)"

definition engineDiff64 :: "query \<Rightarrow> car \<Rightarrow> num" where
  "engineDiff64 q r =
     d_div (js_abs (d_sub (row_num (Engine_Volume r)) (q_Engine_Volume q)))
           (num_or (q_Engine_Volume q) (Fin 1))"

definition mileageDiff64 :: "query \<Rightarrow> car \<Rightarrow> num" where
  "mileageDiff64 q r =
     d_div (js_abs (d_sub (row_num (Mileage r)) (q_Mileage q))) (num_or (q_Mileage q) (Fin 1))"

definition yearDiff64 :: "query \<Rightarrow> car \<Rightarrow> num" where
  "yearDiff64 q r =
     d_div (js_abs (d_sub (row_num (Production_Year r)) (q_Production_Year q))) (Fin 10)"

definition airbagsDiff64 :: "query \<Rightarrow> car \<Rightarrow> num" where
  "airbagsDiff64 q r =
     d_div (js_abs (d_sub (row_num (Airbags r)) (q_Airbags q))) (num_or (q_Airbags q) (Fin 1))"

definition score64 :: "query \<Rightarrow> car \<Rightarrow> num" where
  "score64 q r =
    (let s = Fin 0;
         s = (if \<not> strict_eq64 (Manufacturer r) (q_Manufacturer q) then d_add s (Fin 5) else s);
         s = (if \<not> strict_eq64 (Model r) (q_Model q) then d_add s (Fin 5) else s);
         s = (if \<not> strict_eq64 (Category r) (q_Category q) then d_add s (Fin 3) else s);
         s = (if \<not> strict_eq64 (Fuel_Type r) (q_Fuel_Type q) then d_add s (Fin 3) else s);
         s = (if \<not> strict_eq64 (Gearbox_Type r) (q_Gearbox_Type q) then d_add s (Fin 2) else s);
         s = (if \<not> strict_eq64 (Drive_Wheels r) (q_Drive_Wheels q) then d_add s (Fin 2) else s);
         s = (if Leather_Interior r \<noteq> q_Leather_Interior q then d_add s (Fin 1) else s)
     in d_add s
          (d_add
            (d_add
              (d_add (d_mul (engineDiff64 q r) engineVolWeight)
                     (d_mul (mileageDiff64 q r) mileageWeight))
              (d_mul (yearDiff64 q r) yearWeight))
            (d_mul (airbagsDiff64 q r) airbagsWeight)))"

text \<open>
  The \<^verbatim>\<open>for\<close> loop for any way of scoring a row: the loop itself only compares.
\<close>

fun nearest_loop_by ::
  "(car \<Rightarrow> num) \<Rightarrow> row_ref list \<Rightarrow> row_ref option \<times> num \<Rightarrow> row_ref option \<times> num" where
  "nearest_loop_by sc [] (best, bestScore) = (best, bestScore)"
| "nearest_loop_by sc (ir # rest) (best, bestScore) =
     (if js_lt (sc (snd ir)) bestScore
      then nearest_loop_by sc rest (Some ir, sc (snd ir))
      else nearest_loop_by sc rest (best, bestScore))"

definition nearest_by :: "(car \<Rightarrow> num) \<Rightarrow> car list \<Rightarrow> row_ref option \<times> num" where
  "nearest_by sc rows = nearest_loop_by sc (enumerate 0 rows) (None, PInf)"

definition nearest64 :: "query \<Rightarrow> car list \<Rightarrow> row_ref option \<times> num" where
  "nearest64 q rows = nearest_by (score64 q) rows"

definition findMatch64_labeled :: "query \<Rightarrow> car list \<Rightarrow> row_ref option \<times> num" where
  "findMatch64_labeled q rows =
     (case find_exact64 q rows of
        Some m \<Rightarrow> (Some m, Fin 0)
      | None \<Rightarrow> nearest64 q rows)"

definition findMatch64_simple :: "query \<Rightarrow> car list \<Rightarrow> row_ref option" where
  "findMatch64_simple q rows =
     (case find_exact64 q rows of
        Some m \<Rightarrow> Some m
      | None \<Rightarrow> fst (nearest64 q rows))"

section \<open>The spec's sum on doubles\<close>

text \<open>
  The terms the spec lists, on doubles: the seven penalties, which are small integers,
  and the four numeric terms, each \<open>|r - q| / divisor * weight\<close> with the divisor "the
  query's value if nonzero else 1" (10 for the year) and every operation rounded.
\<close>

definition penalties :: "query \<Rightarrow> car \<Rightarrow> rat list" where
  "penalties q r =
     [ if \<not> strict_eq64 (Manufacturer r) (q_Manufacturer q) then 5 else 0,
       if \<not> strict_eq64 (Model r) (q_Model q) then 5 else 0,
       if \<not> strict_eq64 (Category r) (q_Category q) then 3 else 0,
       if \<not> strict_eq64 (Fuel_Type r) (q_Fuel_Type q) then 3 else 0,
       if \<not> strict_eq64 (Gearbox_Type r) (q_Gearbox_Type q) then 2 else 0,
       if \<not> strict_eq64 (Drive_Wheels r) (q_Drive_Wheels q) then 2 else 0,
       if Leather_Interior r \<noteq> q_Leather_Interior q then 1 else 0 ]"

definition term64 :: "rat \<Rightarrow> num \<Rightarrow> num \<Rightarrow> rat \<Rightarrow> num" where
  "term64 a x divisor w = d_mul (d_div (js_abs (d_sub (row_num a) x)) divisor) (Fin w)"

definition engineTerm64 :: "query \<Rightarrow> car \<Rightarrow> num" where
  "engineTerm64 q r =
     term64 (Engine_Volume r) (q_Engine_Volume q) (nonzero_else_1 (q_Engine_Volume q)) 2"

definition mileageTerm64 :: "query \<Rightarrow> car \<Rightarrow> num" where
  "mileageTerm64 q r = term64 (Mileage r) (q_Mileage q) (nonzero_else_1 (q_Mileage q)) 1"

definition yearTerm64 :: "query \<Rightarrow> car \<Rightarrow> num" where
  "yearTerm64 q r = term64 (Production_Year r) (q_Production_Year q) (Fin 10) 3"

definition airbagsTerm64 :: "query \<Rightarrow> car \<Rightarrow> num" where
  "airbagsTerm64 q r = term64 (Airbags r) (q_Airbags q) (nonzero_else_1 (q_Airbags q)) 1"

text \<open>
  The sum in the order the code adds: the penalties first, which add up without rounding,
  then the four numeric terms among themselves, then the two totals.
\<close>

definition spec_score64 :: "query \<Rightarrow> car \<Rightarrow> num" where
  "spec_score64 q r =
     d_add (Fin (sum_list (penalties q r)))
       (d_add (d_add (d_add (engineTerm64 q r) (mileageTerm64 q r)) (yearTerm64 q r))
              (airbagsTerm64 q r))"

text \<open>The same terms added one after the other as they are listed.\<close>

definition listed_sum64 :: "query \<Rightarrow> car \<Rightarrow> num" where
  "listed_sum64 q r =
     foldl d_add (Fin 0)
       (map Fin (penalties q r) @
        [engineTerm64 q r, mileageTerm64 q r, yearTerm64 q r, airbagsTerm64 q r])"

section \<open>More concrete inputs\<close>

text \<open>The scenario's query with the year set to infinity, and with an Engine Volume of
  \<^verbatim>\<open>1e-320\<close>, which as a double is \<open>2024 * 2^-1074\<close>.\<close>

definition infinite_year_query :: query where
  "infinite_year_query = scenario_query\<lparr>q_Production_Year := PInf\<rparr>"

definition tiny_volume_query :: query where
  "tiny_volume_query = scenario_query\<lparr>q_Engine_Volume := Fin (2024 / 2 ^ 1074)\<rparr>"

text \<open>A row of another manufacturer, one kilometre and two years away from the scenario's
  query.\<close>

definition other_make_row :: car where
  "other_make_row =
     scenario_row\<lparr>Manufacturer := CStr ''B'', Production_Year := 2014, Mileage := 50001\<rparr>"

section \<open>Properties of the number operations\<close>

lemma js_lt_not_NaN: "js_lt x y \<Longrightarrow> x \<noteq> NaN \<and> y \<noteq> NaN"
  by (cases x; cases y; simp)

lemma js_lt_trichotomy: "x \<noteq> NaN \<Longrightarrow> y \<noteq> NaN \<Longrightarrow> js_lt x y \<or> x = y \<or> js_lt y x"
  by (cases x; cases y; auto)

lemma js_add_commute: "js_add x y = js_add y x"
  by (cases x; cases y; simp)

lemma js_add_assoc: "js_add (js_add x y) z = js_add x (js_add y z)"
  by (cases x; cases y; cases z; simp)

lemma js_add_zero: "js_add (Fin 0) x = x"
  by (cases x; simp)

section \<open>Properties of the two passes\<close>

lemma find_exact_Some:
  "find_exact q rows = Some (i, r) \<longleftrightarrow>
     i < length rows \<and> r = rows ! i \<and> exact_match q r \<and> (\<forall>j < i. \<not> exact_match q (rows ! j))"
  unfolding find_exact_def find_Some_iff
  by (auto simp: nth_enumerate_eq)

lemma find_exact_None: "find_exact q rows = None \<longleftrightarrow> (\<forall>r \<in> set rows. \<not> exact_match q r)"
proof -
  have "snd ` set (enumerate 0 rows) = set rows"
    by (metis map_snd_enumerate set_map)
  then show ?thesis
    unfolding find_exact_def find_None_iff by force
qed

text \<open>Once the best score is a lower bound of the rows to come, the loop keeps its state.\<close>

lemma nearest_loop_keep:
  "\<forall>x \<in> set xs. \<not> js_lt (score q (snd x)) bs \<Longrightarrow> nearest_loop q xs (b, bs) = (b, bs)"
  by (induction xs) auto

text \<open>The loop only ever picks a row it was given, and reports that row's own score.\<close>

lemma nearest_loop_mem:
  "nearest_loop q xs (b, bs) = (b', bs') \<Longrightarrow> b' = b \<or> (\<exists>x \<in> set xs. b' = Some x)"
  by (induction xs arbitrary: b bs) (auto split: if_splits)

lemma nearest_loop_score:
  "nearest_loop q xs (b, bs) = (Some x, s) \<Longrightarrow>
     (b = Some x \<and> s = bs) \<or> (x \<in> set xs \<and> s = score q (snd x))"
  by (induction xs arbitrary: b bs) (auto split: if_splits)

lemma nearest_Some:
  assumes "nearest q rows = (Some (i, r), s)"
  shows "i < length rows \<and> r = rows ! i \<and> s = score q r"
proof -
  from assms have "nearest_loop q (enumerate 0 rows) (None, PInf) = (Some (i, r), s)"
    by (simp add: nearest_def)
  from nearest_loop_score [OF this] have "(i, r) \<in> set (enumerate 0 rows)" "s = score q r"
    by auto
  then show ?thesis by (simp add: in_set_enumerate_eq)
qed

section \<open>Evaluation of the concrete inputs\<close>

lemmas example_defs = scenario_row_def scenario_query_def queryFrom_def tied_rows_def
  duplicate_rows_def

lemmas score_defs = score_def engineDiff_def mileageDiff_def yearDiff_def airbagsDiff_def
  engineVolWeight_def mileageWeight_def yearWeight_def airbagsWeight_def strict_ne_def
  num_or_def js_sub_def num_eq_def

lemma tied_score_0: "score scenario_query (tied_rows ! 0) = Fin (3 / 5)"
  by (simp add: example_defs score_defs)

lemma tied_score_1: "score scenario_query (tied_rows ! 1) = Fin (3 / 10)"
  by (simp add: example_defs score_defs)

lemma tied_score_2: "score scenario_query (tied_rows ! 2) = Fin (3 / 10)"
  by (simp add: example_defs score_defs)

lemmas parse_defs = parseInt_def parseFloat_def is_ws_def is_digit_def drop_sign_def
  has_sign_def is_minus_def digits_val_def digit_val_def exponent_def scale10_def

lemma scenario_form_query: "buildQuery scenario_form = scenario_query\<lparr>q_Doors := QNum (Fin 4)\<rparr>"
  by (simp add: buildQuery_def scenario_form_def example_defs parse_defs num_or_def)

lemma exact_form_query: "buildQuery exact_form = queryFrom numeric_doors_row"
  by (simp add: buildQuery_def exact_form_def scenario_form_def numeric_doors_row_def
      example_defs parse_defs num_or_def)

lemma required_only_query:
  "buildQuery required_only_form =
     \<lparr> q_Manufacturer = QStr ''A'', q_Model = QStr ''X'', q_Production_Year = Fin 2015,
       q_Category = QStr [], q_Leather_Interior = False, q_Fuel_Type = QStr [],
       q_Engine_Volume = Fin 0, q_Mileage = Fin 0, q_Gearbox_Type = QStr [],
       q_Drive_Wheels = QStr [], q_Doors = QNum NaN, q_Wheel = QStr [], q_Airbags = NaN \<rparr>"
  by (simp add: buildQuery_def required_only_form_def parse_defs num_or_def)

lemma tied_find: "find_exact scenario_query tied_rows = None"
  by (simp add: find_exact_def example_defs exact_match_def num_eq_def js_sub_def)

lemma tied_nearest: "nearest scenario_query tied_rows = (Some (1, tied_rows ! 1), Fin (3 / 10))"
  by (simp add: nearest_def example_defs score_defs)

lemma scenario_find: "find_exact scenario_query [scenario_row] = None"
  by (simp add: find_exact_def example_defs exact_match_def num_eq_def js_sub_def)

lemma scenario_nearest:
  "nearest scenario_query [scenario_row] = (Some (0, scenario_row), Fin (3 / 10))"
  by (simp add: nearest_def example_defs score_defs)

section \<open>The exact score as a sum\<close>

lemma js_add_zero_right: "js_add x (Fin 0) = x"
  by (cases x; simp)

text \<open>Each \<^verbatim>\<open>if (...) score += w\<close> adds the penalty, which is 0 when the fields agree.\<close>

lemma penalty_step: "(if d then js_add s (Fin w) else s) = js_add s (penalty d w)"
  by (simp add: penalty_def js_add_zero_right)

lemma score_as_sum:
  "score q r =
     js_add (penalty (strict_ne (Manufacturer r) (q_Manufacturer q)) 5)
    (js_add (penalty (strict_ne (Model r) (q_Model q)) 5)
    (js_add (penalty (strict_ne (Category r) (q_Category q)) 3)
    (js_add (penalty (strict_ne (Fuel_Type r) (q_Fuel_Type q)) 3)
    (js_add (penalty (strict_ne (Gearbox_Type r) (q_Gearbox_Type q)) 2)
    (js_add (penalty (strict_ne (Drive_Wheels r) (q_Drive_Wheels q)) 2)
    (js_add (penalty (Leather_Interior r \<noteq> q_Leather_Interior q) 1)
    (js_add (js_mul (engineDiff q r) engineVolWeight)
    (js_add (js_mul (mileageDiff q r) mileageWeight)
    (js_add (js_mul (yearDiff q r) yearWeight)
            (js_mul (airbagsDiff q r) airbagsWeight))))))))))"
  unfolding score_def penalty_step
  by (simp only: Let_def js_add_assoc js_add_zero)

section \<open>Evaluation of the two handlers on the concrete pages\<close>

lemma scenario_form_find: "find_exact (buildQuery scenario_form) [scenario_row] = None"
  by (simp add: scenario_form_query find_exact_def example_defs exact_match_def num_eq_def
      js_sub_def)

lemma scenario_form_nearest:
  "nearest (buildQuery scenario_form) [scenario_row] = (Some (0, scenario_row), Fin (3 / 10))"
  by (simp add: scenario_form_query nearest_def example_defs score_defs)

lemma scenario_form_required: "required_present (buildQuery scenario_form)"
  by (simp add: scenario_form_query required_present_def example_defs)

lemma scenario_page_labeled:
  "onPredict_labeled (fresh_page [scenario_row] scenario_form) =
     (None, \<lparr> DATA_rows = [scenario_row], inputs = scenario_form, price = PriceOf 12000,
              explain = ExplainNearest, details = Some (0, scenario_row),
              toasts = [ToastGenerated] \<rparr>)"
  by (simp add: onPredict_labeled_def fresh_page_def scenario_form_required
      findMatch_labeled_def scenario_form_find scenario_form_nearest render_def explain_of_def
      js_gt_def Let_def)
     (simp add: scenario_row_def)

lemma scenario_page_simple:
  "onPredict_simple (fresh_page [scenario_row] scenario_form) =
     (Some ReferenceError,
      \<lparr> DATA_rows = [scenario_row], inputs = scenario_form, price = PriceOf 12000,
        explain = ExplainInitial, details = None, toasts = [] \<rparr>)"
  by (simp add: onPredict_simple_def fresh_page_def scenario_form_required
      findMatch_simple_def scenario_form_find scenario_form_nearest render_def explain_of_def
      Let_def)
     (simp add: scenario_row_def)

lemma exact_form_find:
  "find_exact (buildQuery exact_form) [numeric_doors_row] = Some (0, numeric_doors_row)"
  by (simp add: exact_form_query find_exact_def numeric_doors_row_def example_defs
      exact_match_def num_eq_def js_sub_def)

lemma exact_form_required: "required_present (buildQuery exact_form)"
  by (simp add: exact_form_query required_present_def numeric_doors_row_def example_defs)

lemma exact_page_labeled:
  "onPredict_labeled (fresh_page [numeric_doors_row] exact_form) =
     (None, \<lparr> DATA_rows = [numeric_doors_row], inputs = exact_form, price = PriceOf 12000,
              explain = ExplainExact, details = Some (0, numeric_doors_row),
              toasts = [ToastGenerated] \<rparr>)"
  by (simp add: onPredict_labeled_def fresh_page_def exact_form_required
      findMatch_labeled_def exact_form_find render_def explain_of_def js_gt_def Let_def)
     (simp add: numeric_doors_row_def scenario_row_def)

lemma exact_page_simple:
  "onPredict_simple (fresh_page [numeric_doors_row] exact_form) =
     (Some ReferenceError,
      \<lparr> DATA_rows = [numeric_doors_row], inputs = exact_form, price = PriceOf 12000,
        explain = ExplainInitial, details = None, toasts = [] \<rparr>)"
  by (simp add: onPredict_simple_def fresh_page_def exact_form_required
      findMatch_simple_def exact_form_find render_def explain_of_def Let_def)
     (simp add: numeric_doors_row_def scenario_row_def)


section \<open>When the handlers throw\<close>

text \<open>The labelled handler returns normally on every page.\<close>

lemma onPredict_labeled_returns: "fst (onPredict_labeled p) = None"
  by (simp add: onPredict_labeled_def render_def explain_of_def Let_def
      split: prod.splits option.splits)

text \<open>
  The handler of \<^verbatim>\<open>app.js\<close> throws exactly when the query passes the guard and a
  row is matched, by either pass.
\<close>

lemma simple_handler_error_iff:
  "fst (onPredict_simple p) = Some ReferenceError \<longleftrightarrow>
     required_present (buildQuery (inputs p)) \<and>
     findMatch_simple (buildQuery (inputs p)) (DATA_rows p) \<noteq> None"
  by (auto simp: onPredict_simple_def render_def explain_of_def Let_def split: option.splits)

text \<open>
  Claim C2 says that the matching operation never throws, in both source variants, also
  when an exact match is found and the exactness flag is computed from the score. The
  labelled variant does not (\<open>onPredict_labeled_returns\<close>). The handler of
  \<^verbatim>\<open>app.js\<close> throws a \<^verbatim>\<open>ReferenceError\<close> at \<^verbatim>\<open>bestScore > 0\<close> on the
  scenario's page, where the nearest-match pass finds the row, and on a page whose form
  describes a row exactly; the price has been written by then, the explanation, the
  details and the toast have not.
\<close>

theorem onPredict_simple_throws:
  "onPredict_simple (fresh_page [scenario_row] scenario_form) =
     (Some ReferenceError, (fresh_page [scenario_row] scenario_form)\<lparr>price := PriceOf 12000\<rparr>) \<and>
   onPredict_simple (fresh_page [numeric_doors_row] exact_form) =
     (Some ReferenceError, (fresh_page [numeric_doors_row] exact_form)\<lparr>price := PriceOf 12000\<rparr>) \<and>
   fst (onPredict_labeled (fresh_page [scenario_row] scenario_form)) = None \<and>
   explain (snd (onPredict_labeled (fresh_page [numeric_doors_row] exact_form))) = ExplainExact"
  by (simp add: scenario_page_simple exact_page_simple scenario_page_labeled exact_page_labeled)
     (simp add: fresh_page_def)

section \<open>Unspecified inputs\<close>

text \<open>Engine Volume and Mileage are never \<^verbatim>\<open>NaN\<close> in the query: \<^verbatim>\<open>|| 0\<close> sees to it.\<close>

lemma num_or_not_NaN: "d \<noteq> NaN \<Longrightarrow> num_or x d \<noteq> NaN"
  by (cases x) (simp_all add: num_or_def)

lemma buildQuery_defaults:
  "q_Engine_Volume (buildQuery f) \<noteq> NaN \<and> q_Mileage (buildQuery f) \<noteq> NaN"
  by (simp add: buildQuery_def num_or_not_NaN)

lemma parseInt_unparseable: "takeWhile is_digit (drop_sign (dropWhile is_ws s)) = [] \<Longrightarrow> parseInt s = NaN"
  by (simp add: parseInt_def)

text \<open>Airbags and Doors are whatever \<^verbatim>\<open>parseInt\<close> returns.\<close>

lemma buildQuery_no_default:
  "q_Airbags (buildQuery f) = parseInt (f_Airbags f) \<and>
   q_Doors (buildQuery f) = QNum (parseInt (f_Doors f))"
  by (simp add: buildQuery_def)

text \<open>
  A query whose Airbags is \<^verbatim>\<open>NaN\<close> scores \<^verbatim>\<open>NaN\<close> against every row and equals
  none, so neither pass finds a row, whatever the dataset holds.
\<close>

lemma js_add_NaN_right: "js_add x NaN = NaN"
  by (cases x; simp)

lemma score_NaN_airbags: "q_Airbags q = NaN \<Longrightarrow> score q r = NaN"
  unfolding score_as_sum
  by (simp add: airbagsDiff_def js_sub_def js_add_NaN_right)

lemma no_match_NaN_airbags:
  assumes "q_Airbags q = NaN"
  shows "findMatch_labeled q rows = (None, PInf) \<and> findMatch_simple q rows = None"
proof -
  have "find_exact q rows = None"
    using assms by (simp add: find_exact_None exact_match_def num_eq_def)
  moreover have "nearest q rows = (None, PInf)"
    unfolding nearest_def
    by (rule nearest_loop_keep) (simp add: score_NaN_airbags [OF assms])
  ultimately show ?thesis
    by (simp add: findMatch_labeled_def findMatch_simple_def)
qed

text \<open>
  Claim C6 says that every field other than the three required ones defaults to 0, false
  or empty when its input is unspecified or unparseable, and that Doors and Airbags
  default like Engine Volume and Mileage do. On the form that fills in the three required
  fields only, Engine Volume and Mileage are 0, and Doors and Airbags are \<^verbatim>\<open>NaN\<close>:
  the query passes the guard, every score is \<^verbatim>\<open>NaN\<close>, and no row is matched.
\<close>

theorem unspecified_doors_airbags_are_NaN:
  "q_Engine_Volume (buildQuery required_only_form) = Fin 0 \<and>
   q_Mileage (buildQuery required_only_form) = Fin 0 \<and>
   q_Doors (buildQuery required_only_form) = QNum NaN \<and>
   q_Airbags (buildQuery required_only_form) = NaN \<and>
   score (buildQuery required_only_form) scenario_row = NaN \<and>
   onPredict_labeled (fresh_page [scenario_row] required_only_form) =
     (None, (fresh_page [scenario_row] required_only_form)
              \<lparr>price := PriceNoMatchFound, explain := ExplainAdjust\<rparr>)"
proof -
  have a: "q_Airbags (buildQuery required_only_form) = NaN"
    by (simp add: required_only_query)
  have r: "required_present (buildQuery required_only_form)"
    by (simp add: required_only_query required_present_def)
  show ?thesis
    using no_match_NaN_airbags [OF a, of "[scenario_row]"] score_NaN_airbags [OF a, of scenario_row] r
    by (simp add: onPredict_labeled_def render_def fresh_page_def Let_def)
       (simp add: required_only_query)
qed

section \<open>The exact-match pass finds the record a query was made from\<close>





section \<open>The empty dataset\<close>

text \<open>
  Claim C5. For every valid query (Manufacturer, Model and Production Year present and
  non-zero, so that the guard lets it through) the matcher on the empty dataset returns
  no record and does not throw: both handlers return normally and show "No match found".
  The matcher itself returns no record on the empty dataset for any query at all.
\<close>

theorem empty_dataset_no_match:
  "findMatch_labeled q [] = (None, PInf) \<and>
   findMatch_simple q [] = None \<and>
   (required_present (buildQuery (inputs p)) \<and> DATA_rows p = [] \<longrightarrow>
      onPredict_labeled p = (None, p\<lparr>price := PriceNoMatchFound, explain := ExplainAdjust\<rparr>) \<and>
      onPredict_simple p = (None, p\<lparr>price := PriceNoMatchFound, explain := ExplainAdjust\<rparr>))"
  by (simp add: findMatch_labeled_def findMatch_simple_def find_exact_def nearest_def
      onPredict_labeled_def onPredict_simple_def render_def)

theorem empty_dataset_no_match_witness:
  "required_present (buildQuery scenario_form) \<and>
   onPredict_labeled (fresh_page [] scenario_form) =
     (None, (fresh_page [] scenario_form)\<lparr>price := PriceNoMatchFound, explain := ExplainAdjust\<rparr>) \<and>
   onPredict_simple (fresh_page [] scenario_form) =
     (None, (fresh_page [] scenario_form)\<lparr>price := PriceNoMatchFound, explain := ExplainAdjust\<rparr>) \<and>
   findMatch_labeled scenario_query [] = (None, PInf)"
  using empty_dataset_no_match [of scenario_query "fresh_page [] scenario_form"]
    scenario_form_required
  by (simp add: fresh_page_def)

section \<open>Division by the query's value\<close>

lemma num_or_1_nonzero: "\<not> is_zero (num_or x (Fin 1))"
  by (cases x) (simp_all add: num_or_def)

text \<open>
  Claim C8. For every query whose Mileage is 0, and every row, the divisor of the mileage
  term falls back to 1 and the term is \<open>|Mileage r - 0| / 1 * 1\<close>, a finite number; the
  same holds for Engine Volume (weight 2) and Airbags (weight 1) when the query's value is
  0. Whatever the query holds, none of the three divisors is zero.
\<close>

theorem zero_query_value_divides_by_one:
  "(q_Mileage q = Fin 0 \<longrightarrow>
      num_or (q_Mileage q) (Fin 1) = Fin 1 \<and>
      js_mul (mileageDiff q r) mileageWeight = Fin (\<bar>Mileage r - 0\<bar> / 1 * 1)) \<and>
   (q_Engine_Volume q = Fin 0 \<longrightarrow>
      num_or (q_Engine_Volume q) (Fin 1) = Fin 1 \<and>
      js_mul (engineDiff q r) engineVolWeight = Fin (\<bar>Engine_Volume r - 0\<bar> / 1 * 2)) \<and>
   (q_Airbags q = Fin 0 \<longrightarrow>
      num_or (q_Airbags q) (Fin 1) = Fin 1 \<and>
      js_mul (airbagsDiff q r) airbagsWeight = Fin (\<bar>Airbags r - 0\<bar> / 1 * 1)) \<and>
   \<not> is_zero (num_or (q_Mileage q) (Fin 1)) \<and>
   \<not> is_zero (num_or (q_Engine_Volume q) (Fin 1)) \<and>
   \<not> is_zero (num_or (q_Airbags q) (Fin 1))"
  by (simp add: num_or_1_nonzero)
     (simp add: mileageDiff_def engineDiff_def airbagsDiff_def mileageWeight_def
        engineVolWeight_def airbagsWeight_def num_or_def js_sub_def)

theorem zero_query_value_divides_by_one_witness:
  "q_Mileage zero_query = Fin 0 \<and> q_Engine_Volume zero_query = Fin 0
   \<and> q_Airbags zero_query = Fin 0
   \<and> js_mul (mileageDiff zero_query scenario_row) mileageWeight = Fin 50000
   \<and> js_mul (engineDiff zero_query scenario_row) engineVolWeight = Fin 4
   \<and> js_mul (airbagsDiff zero_query scenario_row) airbagsWeight = Fin 6
   \<and> score zero_query scenario_row = Fin 50010"
proof -
  have z: "q_Mileage zero_query = Fin 0" "q_Engine_Volume zero_query = Fin 0"
    "q_Airbags zero_query = Fin 0"
    by (simp_all add: zero_query_def)
  have r: "Mileage scenario_row = 50000" "Engine_Volume scenario_row = 2"
    "Airbags scenario_row = 6"
    by (simp_all add: scenario_row_def)
  have s: "score zero_query scenario_row = Fin 50010"
    by (simp add: zero_query_def example_defs score_defs)
  from zero_query_value_divides_by_one [of zero_query scenario_row] z r s show ?thesis
    by simp
qed

section \<open>What the handlers leave untouched\<close>

lemma onPredict_labeled_reads:
  "DATA_rows (snd (onPredict_labeled p)) = DATA_rows p \<and>
   inputs (snd (onPredict_labeled p)) = inputs p"
  by (simp add: onPredict_labeled_def render_def Let_def explain_of_def
      split: prod.splits option.splits)

lemma onPredict_simple_reads:
  "DATA_rows (snd (onPredict_simple p)) = DATA_rows p \<and>
   inputs (snd (onPredict_simple p)) = inputs p"
  by (simp add: onPredict_simple_def render_def Let_def explain_of_def
      split: prod.splits option.splits)

section \<open>The match is a row of the dataset\<close>

text \<open>
  Claim C10. Whenever the matcher produces a record, from the exact-match pass or from
  the nearest-match pass, the record is an element of the rows (the row at the position
  returned, as it stands there), and the handler leaves the rows as they were.
\<close>

theorem match_is_dataset_row:
  "(findMatch_labeled q rows = (Some (i, r), s) \<longrightarrow> i < length rows \<and> r = rows ! i) \<and>
   (findMatch_simple q rows = Some (i, r) \<longrightarrow> i < length rows \<and> r = rows ! i) \<and>
   DATA_rows (snd (onPredict_labeled p)) = DATA_rows p \<and>
   DATA_rows (snd (onPredict_simple p)) = DATA_rows p"
proof (intro conjI impI)
  assume a: "findMatch_labeled q rows = (Some (i, r), s)"
  show "i < length rows" "r = rows ! i"
    using a nearest_Some [of q rows i r s]
    by (auto simp: findMatch_labeled_def find_exact_Some split: option.splits)
next
  assume a: "findMatch_simple q rows = Some (i, r)"
  show "i < length rows" "r = rows ! i"
    using a nearest_Some [of q rows i r "snd (nearest q rows)"]
    by (auto simp: findMatch_simple_def find_exact_Some split: option.splits
        simp: prod_eq_iff)
next
  show "DATA_rows (snd (onPredict_labeled p)) = DATA_rows p"
    by (simp add: onPredict_labeled_reads)
  show "DATA_rows (snd (onPredict_simple p)) = DATA_rows p"
    by (simp add: onPredict_simple_reads)
qed

theorem match_is_dataset_row_witness:
  "findMatch_labeled scenario_query tied_rows = (Some (1, tied_rows ! 1), Fin (3 / 10)) \<and>
   findMatch_simple scenario_query tied_rows = Some (1, tied_rows ! 1) \<and>
   (1::nat) < length tied_rows \<and>
   DATA_rows (snd (onPredict_labeled (fresh_page tied_rows scenario_form))) = tied_rows \<and>
   DATA_rows (snd (onPredict_simple (fresh_page tied_rows scenario_form))) = tied_rows"
  using match_is_dataset_row [of scenario_query tied_rows 1 "tied_rows ! 1" "Fin (3 / 10)"
      "fresh_page tied_rows scenario_form"] tied_find tied_nearest
  by (simp add: findMatch_labeled_def findMatch_simple_def fresh_page_def)

section \<open>Evaluating the rounding\<close>

lemma floor_rat_numeral [simp]: "\<lfloor>numeral a / numeral b :: rat\<rfloor> = numeral a div numeral b"
  by (metis floor_divide_of_int_eq of_int_numeral)

lemma floor_rat_one_numeral [simp]: "\<lfloor>1 / numeral b :: rat\<rfloor> = 1 div numeral b"
  by (metis floor_divide_of_int_eq of_int_numeral of_int_1)

lemma floor_rat_neg_numeral [simp]:
  "\<lfloor>- (numeral a / numeral b) :: rat\<rfloor> = - numeral a div numeral b"
  by (metis divide_minus_left floor_divide_of_int_eq of_int_neg_numeral of_int_numeral)

lemma ceiling_rat_numeral [simp]:
  "\<lceil>numeral a / numeral b :: rat\<rceil> = - (- numeral a div numeral b)"
  using ceiling_divide_eq_div [of "numeral a" "numeral b", where ?'a = rat] by simp

lemmas fl_defs = fl_def ilog2_def pow2_def round_even_def log2n.simps signed_inf_def Let_def

lemmas d_defs = d_add_def d_sub_def d_mul_def d_div_def row_num_def js_sub_def

lemmas score64_defs = score64_def engineDiff64_def mileageDiff64_def yearDiff64_def
  airbagsDiff64_def engineVolWeight_def mileageWeight_def yearWeight_def airbagsWeight_def
  num_or_def num_eq_def

text \<open>The doubles of the scenario: the integers are themselves, a tenth and three tenths are not.\<close>

lemma fl_scenario:
  "fl 2015 = Fin 2015" "fl 2016 = Fin 2016" "fl 2 = Fin 2" "fl 50000 = Fin 50000"
  "fl 6 = Fin 6" "fl 1 = Fin 1" "fl 3 = Fin 3" "fl (- 1) = Fin (- 1)" "fl 0 = Fin 0"
  by (simp_all add: fl_defs)

lemma fl_tenth: "fl (1 / 10) = Fin (3602879701896397 / 2 ^ 55)"
  by (simp add: fl_defs)

lemma fl_three_tenths: "fl (3 / 10) = Fin (5404319552844595 / 2 ^ 54)"
  by (simp add: fl_defs)

lemma fl_tenth_times_3: "fl (3602879701896397 / 2 ^ 55 * 3) = Fin (5404319552844596 / 2 ^ 54)"
  by (simp add: fl_defs)

lemma fl_thousandth: "fl (1 / 1000) = Fin (1152921504606847 / 2 ^ 60)"
  by (simp add: fl_defs)

lemma scenario_score64:
  "score64 scenario_query scenario_row = Fin (5404319552844596 / 2 ^ 54)"
  by (simp add: score64_defs example_defs d_defs fl_defs)

lemma scenario_exact64: "\<not> exact_match64 scenario_query scenario_row"
  by (simp add: exact_match64_def example_defs row_num_def num_eq_def fl_scenario)

section \<open>The loop for any scoring\<close>

lemma nearest_loop_by_score: "nearest_loop q xs st = nearest_loop_by (score q) xs st"
  by (induction xs arbitrary: st) (auto split: prod.splits)

lemma nearest_by_score: "nearest q rows = nearest_by (score q) rows"
  by (simp add: nearest_def nearest_by_def nearest_loop_by_score)

lemma nearest_loop_by_keep:
  "\<forall>x \<in> set xs. \<not> js_lt (sc (snd x)) bs \<Longrightarrow> nearest_loop_by sc xs (b, bs) = (b, bs)"
  by (induction xs) auto

text \<open>
  The loop invariant behind the tie-break: if position \<open>i\<close> is the first to reach a score
  \<open>s\<close> that no row undercuts, and the best score so far is above \<open>s\<close>, the loop ends with
  the row at \<open>i\<close>.
\<close>

lemma nearest_loop_by_first_min:
  assumes "i < length xs"
      and "sc (snd (xs ! i)) = s"
      and "js_lt s bs"
      and "\<forall>j < length xs. \<not> js_lt (sc (snd (xs ! j))) s"
      and "\<forall>j < i. sc (snd (xs ! j)) \<noteq> s"
    shows "nearest_loop_by sc xs (b, bs) = (Some (xs ! i), s)"
  using assms
proof (induction xs arbitrary: i b bs)
  case Nil
  then show ?case by simp
next
  case (Cons x rest)
  have s_num: "s \<noteq> NaN" using Cons.prems(3) js_lt_not_NaN by blast
  have rest_bound: "\<forall>y \<in> set rest. \<not> js_lt (sc (snd y)) s"
  proof
    fix y assume "y \<in> set rest"
    then obtain j where "j < length rest" "rest ! j = y" by (auto simp: in_set_conv_nth)
    with Cons.prems(4) [rule_format, of "Suc j"] show "\<not> js_lt (sc (snd y)) s" by simp
  qed
  show ?case
  proof (cases i)
    case 0
    with Cons.prems have "sc (snd x) = s" by simp
    with Cons.prems(3) rest_bound show ?thesis
      using 0 by (simp add: nearest_loop_by_keep)
  next
    case (Suc i')
    have i': "i' < length rest" using Cons.prems(1) Suc by simp
    have at: "sc (snd (rest ! i')) = s" using Cons.prems(2) Suc by simp
    have bound: "\<forall>j < length rest. \<not> js_lt (sc (snd (rest ! j))) s"
      using rest_bound by simp
    have first: "\<forall>j < i'. sc (snd (rest ! j)) \<noteq> s"
    proof (intro allI impI)
      fix j assume "j < i'"
      with Cons.prems(5) [rule_format, of "Suc j"] Suc show "sc (snd (rest ! j)) \<noteq> s" by simp
    qed
    have x_ne: "sc (snd x) \<noteq> s"
      using Cons.prems(5) [rule_format, of 0] Suc by simp
    have x_nlt: "\<not> js_lt (sc (snd x)) s"
      using Cons.prems(4) [rule_format, of 0] by simp
    show ?thesis
    proof (cases "js_lt (sc (snd x)) bs")
      case True
      then have "sc (snd x) \<noteq> NaN" using js_lt_not_NaN by blast
      with x_ne x_nlt s_num have "js_lt s (sc (snd x))"
        using js_lt_trichotomy [of "sc (snd x)" s] by auto
      from Cons.IH [OF i' at this bound first] True Suc show ?thesis by simp
    next
      case False
      from Cons.IH [OF i' at Cons.prems(3) bound first] False Suc show ?thesis by simp
    qed
  qed
qed

section \<open>Ties in the nearest-match pass\<close>

lemma infinite_year_scores:
  "score infinite_year_query (tied_rows ! 0) = PInf"
  "score infinite_year_query (tied_rows ! 1) = PInf"
  "score infinite_year_query (tied_rows ! 2) = PInf"
  by (simp_all add: infinite_year_query_def example_defs score_defs signed_inf_def)

lemma infinite_year_nearest: "nearest infinite_year_query tied_rows = (None, PInf)"
  by (simp add: nearest_def infinite_year_query_def example_defs score_defs signed_inf_def)

lemma tiny_volume_scores:
  "score64 tiny_volume_query (tied_rows ! 0) = PInf"
  "score64 tiny_volume_query (tied_rows ! 1) = PInf"
  "score64 tiny_volume_query (tied_rows ! 2) = PInf"
  by (simp_all add: tiny_volume_query_def example_defs score64_defs d_defs fl_defs)

lemma tiny_volume_nearest: "nearest64 tiny_volume_query tied_rows = (None, PInf)"
proof -
  have "\<forall>x \<in> set (enumerate 0 tied_rows). \<not> js_lt (score64 tiny_volume_query (snd x)) PInf"
    using tiny_volume_scores by (simp add: tied_rows_def)
  then show ?thesis
    by (simp add: nearest64_def nearest_by_def nearest_loop_by_keep)
qed

text \<open>
  Claim C7 says that whenever two or more rows attain the same globally minimum score the
  nearest-match pass returns the first of them. It does not when that minimum is
  \<^verbatim>\<open>Infinity\<close>: the scan starts from \<^verbatim>\<open>bestScore = Infinity\<close> and replaces only
  on a strictly smaller score, so it returns no row. With an infinite year in the query
  all three rows of \<open>tied_rows\<close> score \<^verbatim>\<open>Infinity\<close>, in exact arithmetic already; on
  doubles the same happens with the finite Engine Volume \<^verbatim>\<open>1e-320\<close>, where the
  division overflows.
\<close>

theorem all_rows_infinite_no_match:
  "score infinite_year_query (tied_rows ! 0) = PInf \<and>
   score infinite_year_query (tied_rows ! 1) = PInf \<and>
   score infinite_year_query (tied_rows ! 2) = PInf \<and>
   nearest infinite_year_query tied_rows = (None, PInf) \<and>
   score64 tiny_volume_query (tied_rows ! 0) = PInf \<and>
   score64 tiny_volume_query (tied_rows ! 1) = PInf \<and>
   score64 tiny_volume_query (tied_rows ! 2) = PInf \<and>
   nearest64 tiny_volume_query tied_rows = (None, PInf)"
  using infinite_year_scores infinite_year_nearest tiny_volume_scores tiny_volume_nearest
  by simp

text \<open>
  Claim C7 as amended. In the nearest-match pass, for any scoring of the rows, when the
  globally minimum score is below \<^verbatim>\<open>Infinity\<close> the matcher returns the first row that
  attains it, with that score: \<open>s\<close> is the score of the row at \<open>i\<close>, no row scores below
  \<open>s\<close> (a \<^verbatim>\<open>NaN\<close> compares below nothing) and no earlier row scores \<open>s\<close>. When no row
  scores below \<^verbatim>\<open>Infinity\<close> the pass returns no row. Both passes of this theory, the
  exact one and the one on doubles, are this loop.
\<close>

theorem first_minimum_below_infinity:
  "(i < length rows \<and> sc (rows ! i) = s \<and> js_lt s PInf \<and>
    (\<forall>j < length rows. \<not> js_lt (sc (rows ! j)) s) \<and> (\<forall>j < i. sc (rows ! j) \<noteq> s)
      \<longrightarrow> nearest_by sc rows = (Some (i, rows ! i), s)) \<and>
   ((\<forall>j < length rows. \<not> js_lt (sc (rows ! j)) PInf) \<longrightarrow> nearest_by sc rows = (None, PInf)) \<and>
   nearest q rows = nearest_by (score q) rows \<and>
   nearest64 q rows = nearest_by (score64 q) rows"
proof (intro conjI impI)
  let ?xs = "enumerate 0 rows"
  have nth: "\<And>j. j < length rows \<Longrightarrow> ?xs ! j = (j, rows ! j)"
    by (simp add: nth_enumerate_eq)
  {
    assume a: "i < length rows \<and> sc (rows ! i) = s \<and> js_lt s PInf \<and>
      (\<forall>j < length rows. \<not> js_lt (sc (rows ! j)) s) \<and> (\<forall>j < i. sc (rows ! j) \<noteq> s)"
    have "nearest_loop_by sc ?xs (None, PInf) = (Some (?xs ! i), s)"
    proof (rule nearest_loop_by_first_min)
      show "i < length ?xs" using a by simp
      show "sc (snd (?xs ! i)) = s" using a by (simp add: nth)
      show "js_lt s PInf" using a by simp
      show "\<forall>j < length ?xs. \<not> js_lt (sc (snd (?xs ! j))) s" using a by (simp add: nth)
      show "\<forall>j < i. sc (snd (?xs ! j)) \<noteq> s" using a by (simp add: nth)
    qed
    then show "nearest_by sc rows = (Some (i, rows ! i), s)"
      using a by (simp add: nearest_by_def nth)
  }
  {
    assume a: "\<forall>j < length rows. \<not> js_lt (sc (rows ! j)) PInf"
    have "\<forall>x \<in> set ?xs. \<not> js_lt (sc (snd x)) PInf"
      using a by (auto simp: in_set_enumerate_eq)
    then show "nearest_by sc rows = (None, PInf)"
      by (simp add: nearest_by_def nearest_loop_by_keep)
  }
  show "nearest q rows = nearest_by (score q) rows" by (rule nearest_by_score)
  show "nearest64 q rows = nearest_by (score64 q) rows" by (simp add: nearest64_def)
qed

text \<open>
  On \<open>tied_rows\<close> the second and the third row both score 3/10 against the scenario's
  query and the first scores 3/5: the pass returns the second row. With the infinite
  year it returns none.
\<close>

theorem first_minimum_below_infinity_witness:
  "nearest scenario_query tied_rows = (Some (1, tied_rows ! 1), Fin (3 / 10))
   \<and> score scenario_query (tied_rows ! 2) = score scenario_query (tied_rows ! 1)
   \<and> predicted_price (tied_rows ! 1) = 12000
   \<and> nearest_by (score infinite_year_query) tied_rows = (None, PInf)"
proof -
  have len: "length tied_rows = 3" by (simp add: tied_rows_def)
  have h: "1 < length tied_rows \<and> score scenario_query (tied_rows ! 1) = Fin (3 / 10) \<and>
      js_lt (Fin (3 / 10)) PInf \<and>
      (\<forall>j < length tied_rows. \<not> js_lt (score scenario_query (tied_rows ! j)) (Fin (3 / 10))) \<and>
      (\<forall>j < 1. score scenario_query (tied_rows ! j) \<noteq> Fin (3 / 10))"
    using tied_score_0 tied_score_1 tied_score_2
    by (simp add: len numeral_3_eq_3 numeral_2_eq_2 less_Suc_eq)
  have g: "\<forall>j < length tied_rows. \<not> js_lt (score infinite_year_query (tied_rows ! j)) PInf"
    using infinite_year_scores by (simp add: len numeral_3_eq_3 numeral_2_eq_2 less_Suc_eq)
  from first_minimum_below_infinity [of 1 tied_rows "score scenario_query" "Fin (3 / 10)"
      scenario_query] first_minimum_below_infinity [of 0 tied_rows "score infinite_year_query"
      PInf infinite_year_query] h g tied_score_1 tied_score_2
  show ?thesis by (simp add: tied_rows_def)
qed

section \<open>The spec's scenario on doubles\<close>

lemma scenario_find64: "find_exact64 scenario_query [scenario_row] = None"
  by (simp add: find_exact64_def scenario_exact64)

lemma scenario_nearest64:
  "nearest64 scenario_query [scenario_row] =
     (Some (0, scenario_row), Fin (5404319552844596 / 2 ^ 54))"
  by (simp add: nearest64_def nearest_by_def scenario_score64)

text \<open>
  Claim C4 says that on the scenario the score is 0.3. The program computes
  \<^verbatim>\<open>Math.abs(2015 - 2016) / 10 * 3\<close> on doubles: the quotient is the double nearest to
  a tenth, and three times it lies halfway between two doubles and rounds to the even
  one, \<open>5404319552844596 * 2^-54\<close>, which prints as \<^verbatim>\<open>0.30000000000000004\<close>. That is
  neither three tenths nor the double nearest to it, \<open>5404319552844595 * 2^-54\<close>, which
  is what the literal \<^verbatim>\<open>0.3\<close> denotes.
\<close>

theorem scenario_score_is_not_three_tenths:
  "snd (nearest64 scenario_query [scenario_row]) \<noteq> Fin (3 / 10) \<and>
   snd (nearest64 scenario_query [scenario_row]) \<noteq> fl (3 / 10) \<and>
   score64 scenario_query scenario_row \<noteq> fl (3 / 10)"
  by (simp add: scenario_nearest64 scenario_score64 fl_three_tenths)

text \<open>
  Claim C4 as amended. On the dataset that holds the scenario's row alone, with the query
  that differs from the row in the year 2016 only, the exact-match pass finds nothing
  (exact = false), the nearest-match pass returns the single row, the price reported is
  12000, and the score is \<open>|2015 - 2016| / 10 * 3\<close> as doubles compute it,
  \<open>5404319552844596 * 2^-54\<close> (\<^verbatim>\<open>0.30000000000000004\<close>), less than \<open>2^-54\<close> above three
  tenths. The rendering of both files writes the price 12000 for this match, and that of
  the labelled file the explanation of a nearest match.
\<close>

theorem scenario_near_match64:
  "find_exact64 scenario_query [scenario_row] = None \<and>
   nearest64 scenario_query [scenario_row] =
     (Some (0, scenario_row), Fin (5404319552844596 / 2 ^ 54)) \<and>
   findMatch64_simple scenario_query [scenario_row] = Some (0, scenario_row) \<and>
   findMatch64_labeled scenario_query [scenario_row] =
     (Some (0, scenario_row), Fin (5404319552844596 / 2 ^ 54)) \<and>
   Fin (5404319552844596 / 2 ^ 54) =
     d_mul (d_div (js_abs (d_sub (Fin 2015) (Fin 2016))) (Fin 10)) (Fin 3) \<and>
   \<bar>5404319552844596 / 2 ^ 54 - 3 / 10\<bar> < (1 / 2 ^ 54 :: rat) \<and>
   predicted_price scenario_row = 12000 \<and>
   price (snd (render (findMatch64_simple scenario_query [scenario_row]) None
                 (fresh_page [scenario_row] scenario_form))) = PriceOf 12000 \<and>
   render (Some (0, scenario_row)) (Some (Fin (5404319552844596 / 2 ^ 54)))
          (fresh_page [scenario_row] scenario_form) =
     (None, \<lparr> DATA_rows = [scenario_row], inputs = scenario_form, price = PriceOf 12000,
              explain = ExplainNearest, details = Some (0, scenario_row),
              toasts = [ToastGenerated] \<rparr>)"
proof (intro conjI)
  show "find_exact64 scenario_query [scenario_row] = None" by (rule scenario_find64)
  show n: "nearest64 scenario_query [scenario_row] =
     (Some (0, scenario_row), Fin (5404319552844596 / 2 ^ 54))"
    by (rule scenario_nearest64)
  show s: "findMatch64_simple scenario_query [scenario_row] = Some (0, scenario_row)"
    by (simp add: findMatch64_simple_def scenario_find64 scenario_nearest64)
  show "findMatch64_labeled scenario_query [scenario_row] =
     (Some (0, scenario_row), Fin (5404319552844596 / 2 ^ 54))"
    by (simp add: findMatch64_labeled_def scenario_find64 scenario_nearest64)
  show "Fin (5404319552844596 / 2 ^ 54) =
     d_mul (d_div (js_abs (d_sub (Fin 2015) (Fin 2016))) (Fin 10)) (Fin 3)"
    by (simp add: d_defs fl_defs)
  show "\<bar>5404319552844596 / 2 ^ 54 - 3 / 10\<bar> < (1 / 2 ^ 54 :: rat)" by simp
  show p: "predicted_price scenario_row = 12000" by (simp add: scenario_row_def)
  show "price (snd (render (findMatch64_simple scenario_query [scenario_row]) None
                 (fresh_page [scenario_row] scenario_form))) = PriceOf 12000"
    by (simp add: s render_def explain_of_def p)
  show "render (Some (0, scenario_row)) (Some (Fin (5404319552844596 / 2 ^ 54)))
          (fresh_page [scenario_row] scenario_form) =
     (None, \<lparr> DATA_rows = [scenario_row], inputs = scenario_form, price = PriceOf 12000,
              explain = ExplainNearest, details = Some (0, scenario_row),
              toasts = [ToastGenerated] \<rparr>)"
    by (simp add: render_def explain_of_def js_gt_def fresh_page_def p)
qed

theorem scenario_near_match64_witness:
  "fst (findMatch64_labeled scenario_query [scenario_row]) = Some (0, scenario_row) \<and>
   snd (findMatch64_labeled scenario_query [scenario_row]) = Fin (5404319552844596 / 2 ^ 54) \<and>
   predicted_price (snd (the (findMatch64_simple scenario_query [scenario_row]))) = 12000"
  using scenario_near_match64 by simp

section \<open>The score on doubles and the spec's sum\<close>

lemma fl_penalty_totals:
  "fl 0 = Fin 0" "fl 1 = Fin 1" "fl 2 = Fin 2" "fl 3 = Fin 3" "fl 4 = Fin 4" "fl 5 = Fin 5"
  "fl 6 = Fin 6" "fl 7 = Fin 7" "fl 8 = Fin 8" "fl 9 = Fin 9" "fl 10 = Fin 10"
  "fl 11 = Fin 11" "fl 12 = Fin 12" "fl 13 = Fin 13" "fl 14 = Fin 14" "fl 15 = Fin 15"
  "fl 16 = Fin 16" "fl 17 = Fin 17" "fl 18 = Fin 18" "fl 19 = Fin 19" "fl 20 = Fin 20"
  "fl 21 = Fin 21"
  by (simp_all add: fl_defs)

lemma d_sub_NaN: "d_sub a NaN = NaN"
  by (cases a) (simp_all add: d_sub_def js_sub_def)

lemma fallback_divisor64:
  "d_div (js_abs (d_sub a x)) (num_or x (Fin 1)) =
   d_div (js_abs (d_sub a x)) (nonzero_else_1 x)"
  by (cases x) (simp_all add: num_or_def nonzero_else_1_def d_sub_NaN d_div_def)

lemma score64_penalties:
  "(let s = Fin 0;
        s = (if d1 then d_add s (Fin 5) else s);
        s = (if d2 then d_add s (Fin 5) else s);
        s = (if d3 then d_add s (Fin 3) else s);
        s = (if d4 then d_add s (Fin 3) else s);
        s = (if d5 then d_add s (Fin 2) else s);
        s = (if d6 then d_add s (Fin 2) else s);
        s = (if d7 then d_add s (Fin 1) else s)
    in f s) =
   f (Fin (sum_list [if d1 then 5 else 0, if d2 then 5 else 0, if d3 then 3 else 0,
                     if d4 then 3 else 0, if d5 then 2 else 0, if d6 then 2 else 0,
                     if d7 then 1 else 0]))"
  by (cases d1; cases d2; cases d3; cases d4; cases d5; cases d6; cases d7)
     (simp_all add: d_add_def fl_penalty_totals)

lemma scenario_spec_score: "spec_score scenario_query scenario_row = Fin (3 / 10)"
  by (simp add: example_defs spec_score_def sum_num_def penalty_def nonzero_else_1_def
      js_sub_def)

lemma other_make_score64:
  "score64 scenario_query other_make_row = Fin (6305061996316831 / 2 ^ 50)"
  by (simp add: other_make_row_def score64_defs example_defs d_defs fl_defs)

lemma other_make_listed_sum64:
  "listed_sum64 scenario_query other_make_row = Fin (6305061996316832 / 2 ^ 50)"
  by (simp add: other_make_row_def listed_sum64_def penalties_def engineTerm64_def
      mileageTerm64_def yearTerm64_def airbagsTerm64_def term64_def nonzero_else_1_def
      example_defs d_defs fl_defs)

text \<open>
  Claim C3 says that the score equals the sum of the listed penalties and terms. On
  doubles every operation rounds, and the result depends on the order of the additions.
  Against the scenario's row the terms sum to three tenths and the score is
  \<open>5404319552844596 * 2^-54\<close>. Against \<open>other_make_row\<close> the score differs in the last
  place from the listed terms added one after the other, also on doubles.
\<close>

theorem score_is_not_the_listed_sum:
  "spec_score scenario_query scenario_row = Fin (3 / 10) \<and>
   score64 scenario_query scenario_row = Fin (5404319552844596 / 2 ^ 54) \<and>
   score64 scenario_query scenario_row \<noteq> spec_score scenario_query scenario_row \<and>
   score64 scenario_query other_make_row \<noteq> listed_sum64 scenario_query other_make_row"
  by (simp add: scenario_spec_score scenario_score64 other_make_score64
      other_make_listed_sum64)

text \<open>
  Claim C3 as amended. For every record \<open>r\<close> and query \<open>q\<close> the score of the nearest-match
  pass is made of the penalties 5, 5, 3, 3, 2, 2, 1 for a differing Manufacturer, Model,
  Category, Fuel Type, Gearbox Type, Drive Wheels and Leather Interior, and of the terms
  \<open>|r - q| / divisor * weight\<close> for Engine Volume (weight 2), Mileage (1), Production Year
  (fixed divisor 10, weight 3) and Airbags (1), the divisor being the query's value or 1
  if that is zero; it is their sum as doubles compute it in the order of the code: the
  penalties add up exactly, the four terms are added in the order listed, and the two
  totals are added last, every operation rounding to the nearest double. Doors and Wheel
  contribute nothing.
\<close>

theorem score64_is_rounded_sum:
  "score64 q r = spec_score64 q r \<and>
   score64 (q\<lparr>q_Doors := d, q_Wheel := w\<rparr>) (r\<lparr>Doors := d', Wheel := w'\<rparr>) = score64 q r"
proof
  show "score64 q r = spec_score64 q r"
    unfolding score64_def score64_penalties
    by (simp add: spec_score64_def penalties_def engineTerm64_def mileageTerm64_def
        yearTerm64_def airbagsTerm64_def term64_def engineDiff64_def mileageDiff64_def
        yearDiff64_def airbagsDiff64_def engineVolWeight_def mileageWeight_def
        yearWeight_def airbagsWeight_def fallback_divisor64)
  show "score64 (q\<lparr>q_Doors := d, q_Wheel := w\<rparr>) (r\<lparr>Doors := d', Wheel := w'\<rparr>) = score64 q r"
    by (simp add: score64_def engineDiff64_def mileageDiff64_def yearDiff64_def
        airbagsDiff64_def)
qed

theorem score64_is_rounded_sum_witness:
  "score64 scenario_query scenario_row = spec_score64 scenario_query scenario_row
   \<and> spec_score64 scenario_query scenario_row = Fin (5404319552844596 / 2 ^ 54)
   \<and> score64 (scenario_query\<lparr>q_Doors := QNum NaN, q_Wheel := QStr ''R''\<rparr>)
              (scenario_row\<lparr>Doors := CNum 2, Wheel := CStr ''R''\<rparr>) =
       Fin (5404319552844596 / 2 ^ 54)"
  using score64_is_rounded_sum [where q = scenario_query and r = scenario_row
      and d = "QNum NaN" and w = "QStr ''R''" and d' = "CNum 2" and w' = "CStr ''R''"]
    scenario_score64
  by simp

end
